theory Spec2Isabelle
  imports Main
begin

section \<open>The sign-up form of \<^verbatim>\<open>src/components/auth/sign-up-form.tsx\<close>\<close>

text \<open>
  The component holds three pieces of state: the values of the form (kept by
  \<^verbatim>\<open>useForm\<close>), the error slots \<^verbatim>\<open>formState.errors\<close>, and the React state
  \<^verbatim>\<open>isPending\<close>. Its collaborators (\<^verbatim>\<open>authClient\<close>, \<^verbatim>\<open>useUser\<close>, the router) are
  imported modules: they are parameters of the model, and what the component asks of
  them is recorded as a list of events, in the order of the calls.

  A JavaScript string is modelled as \<^typ>\<open>string\<close>: one \<^typ>\<open>char\<close> per code unit, so
  that \<^verbatim>\<open>value.length\<close> is \<^const>\<open>length\<close>.
\<close>

subsection \<open>Values\<close>

text \<open>\<^verbatim>\<open>interface Values\<close> and \<^verbatim>\<open>const defaultValues\<close>.\<close>

record Values =
  firstName :: string
  lastName :: string
  email :: string
  password :: string
  contactNumbers :: "string list"
  terms :: bool

definition defaultValues :: Values where
  "defaultValues =
     \<lparr>firstName = '''', lastName = '''', email = '''', password = '''',
      contactNumbers = [], terms = False\<rparr>"

subsection \<open>Error slots\<close>

text \<open>
  The names under which errors are stored: one per field of \<^typ>\<open>Values\<close>, one per index
  of the contact-number array (\<^verbatim>\<open>contactNumbers[i]\<close>; read by the component as
  \<^verbatim>\<open>errors.contactNumbers?.[index]\<close>), and \<^verbatim>\<open>root\<close>.
\<close>

datatype path =
    P_firstName
  | P_lastName
  | P_email
  | P_password
  | P_contactNumbers
  | P_contactNumbers_at nat
  | P_terms
  | P_root

record FieldError =
  errType :: string
  message :: string

type_synonym FieldErrors = "path \<rightharpoonup> FieldError"

subsection \<open>The validation schema\<close>

text \<open>
  \<^verbatim>\<open>const schema = yup.object({...})\<close> is a value built from the rule constructors of the
  validation library. The rules the schema uses are the constructors below; their
  meaning is the library's: \<^verbatim>\<open>required\<close> on a string fails on length 0, \<^verbatim>\<open>min(n)\<close> fails
  on fewer than \<^verbatim>\<open>n\<close> code units (on an array: fewer than \<^verbatim>\<open>n\<close> entries), \<^verbatim>\<open>email\<close>
  matches the library's pattern and lets the empty string through, \<^verbatim>\<open>oneOf\<close> fails on a
  value outside the list. The library's e-mail pattern is the parameter \<open>rEmail\<close>.
\<close>

datatype string_test =
    StrRequired string
  | StrEmail string
  | StrMin nat string

datatype array_schema = ArrayOf "string_test list" nat string

datatype boolean_schema = BoolOneOf "bool list" string

record object_schema =
  sch_firstName :: "string_test list"
  sch_lastName :: "string_test list"
  sch_email :: "string_test list"
  sch_password :: "string_test list"
  sch_contactNumbers :: array_schema
  sch_terms :: boolean_schema

text \<open>The message of a call \<^verbatim>\<open>.email()\<close> without argument: \<^verbatim>\<open>${path} must be a valid email\<close>.\<close>

definition email_default_message :: "string \<Rightarrow> string" where
  "email_default_message p = p @ '' must be a valid email''"

definition schema :: object_schema where
  "schema =
     \<lparr>sch_firstName = [StrRequired ''First name is required''],
      sch_lastName = [StrRequired ''Last name is required''],
      sch_email = [StrRequired ''Email is required'', StrEmail (email_default_message ''email'')],
      sch_password =
        [StrRequired ''Password is required'',
         StrMin 6 ''Password should need to be at least 6 characters''],
      sch_contactNumbers =
        ArrayOf [StrRequired ''Contact number is required'']
          1 ''At least one contact number is required'',
      sch_terms = BoolOneOf [True] ''You must accept the terms and conditions''\<rparr>"

fun string_test_error :: "(string \<Rightarrow> bool) \<Rightarrow> string_test \<Rightarrow> string \<Rightarrow> FieldError option" where
  "string_test_error rEmail (StrRequired msg) v =
     (if length v > 0 then None else Some \<lparr>errType = ''required'', message = msg\<rparr>)"
| "string_test_error rEmail (StrEmail msg) v =
     (if v = [] \<or> rEmail v then None else Some \<lparr>errType = ''email'', message = msg\<rparr>)"
| "string_test_error rEmail (StrMin n msg) v =
     (if length v \<ge> n then None else Some \<lparr>errType = ''min'', message = msg\<rparr>)"

text \<open>
  The resolver validates with \<^verbatim>\<open>abortEarly: false\<close>: every failing test of every field
  reports, in the order of the tests.
\<close>

definition validate_string ::
  "(string \<Rightarrow> bool) \<Rightarrow> string_test list \<Rightarrow> path \<Rightarrow> string \<Rightarrow> (path \<times> FieldError) list" where
  "validate_string rEmail tests p v =
     map (Pair p) (List.map_filter (\<lambda>t. string_test_error rEmail t v) tests)"

fun validate_array ::
  "(string \<Rightarrow> bool) \<Rightarrow> array_schema \<Rightarrow> string list \<Rightarrow> (path \<times> FieldError) list" where
  "validate_array rEmail (ArrayOf tests n msg) xs =
     concat (map (\<lambda>i. validate_string rEmail tests (P_contactNumbers_at i) (xs ! i))
                 [0..<length xs])
     @ (if length xs \<ge> n then []
        else [(P_contactNumbers, \<lparr>errType = ''min'', message = msg\<rparr>)])"

fun validate_boolean :: "boolean_schema \<Rightarrow> path \<Rightarrow> bool \<Rightarrow> (path \<times> FieldError) list" where
  "validate_boolean (BoolOneOf allowed msg) p b =
     (if b \<in> set allowed then [] else [(p, \<lparr>errType = ''oneOf'', message = msg\<rparr>)])"

definition validate ::
  "(string \<Rightarrow> bool) \<Rightarrow> object_schema \<Rightarrow> Values \<Rightarrow> (path \<times> FieldError) list" where
  "validate rEmail s v =
     validate_string rEmail (sch_firstName s) P_firstName (firstName v)
     @ validate_string rEmail (sch_lastName s) P_lastName (lastName v)
     @ validate_string rEmail (sch_email s) P_email (email v)
     @ validate_string rEmail (sch_password s) P_password (password v)
     @ validate_array rEmail (sch_contactNumbers s) (contactNumbers v)
     @ validate_boolean (sch_terms s) P_terms (terms v)"

text \<open>
  \<^verbatim>\<open>yupResolver(schema)\<close>: the values when no test fails; otherwise the error slots, where
  each path keeps the first error reported for it.
\<close>

definition parseErrorSchema :: "(path \<times> FieldError) list \<Rightarrow> FieldErrors" where
  "parseErrorSchema errs = map_of errs"

definition yupResolver ::
  "(string \<Rightarrow> bool) \<Rightarrow> object_schema \<Rightarrow> Values \<Rightarrow> FieldErrors + Values" where
  "yupResolver rEmail s v =
     (let errs = validate rEmail s v
      in if errs = [] then Inr v else Inl (parseErrorSchema errs))"

subsection \<open>State of the component\<close>

record FormState =
  formValues :: Values
  errors :: FieldErrors
  isPending :: bool

text \<open>\<^verbatim>\<open>useForm({ defaultValues, ... })\<close> and \<^verbatim>\<open>React.useState<boolean>(false)\<close>.\<close>

definition initialState :: FormState where
  "initialState = \<lparr>formValues = defaultValues, errors = Map.empty, isPending = False\<rparr>"

subsection \<open>The field array\<close>

text \<open>
  \<^verbatim>\<open>useFieldArray({ control, name: 'contactNumbers' })\<close>. \<^verbatim>\<open>fields\<close> has one entry per
  stored contact number. \<^verbatim>\<open>append\<close> and \<^verbatim>\<open>remove\<close> do not work on the stored list as
  it is: they read it through the form control, which hands it out with its falsy
  entries dropped, and for a list of strings the falsy entry is the empty string.
  \<^verbatim>\<open>append\<close> puts the new value at the end of that list; \<^verbatim>\<open>remove\<close> deletes the
  position \<^verbatim>\<open>index\<close> of that list (nothing, when it has no such position) and stores
  the empty list when nothing truthy is left.
\<close>

definition fields_of :: "Values \<Rightarrow> nat list" where
  "fields_of v = [0..<length (contactNumbers v)]"

definition compact :: "string list \<Rightarrow> string list" where
  "compact xs = filter (\<lambda>x. x \<noteq> []) xs"

definition getFieldArray :: "Values \<Rightarrow> string list" where
  "getFieldArray v = compact (contactNumbers v)"

definition append_value :: "string \<Rightarrow> Values \<Rightarrow> Values" where
  "append_value x v = v\<lparr>contactNumbers := getFieldArray v @ [x]\<rparr>"

definition removeArrayAt :: "string list \<Rightarrow> nat \<Rightarrow> string list" where
  "removeArrayAt data index =
     (let temp = take index data @ drop (Suc index) data
      in if compact temp \<noteq> [] then temp else [])"

definition remove :: "nat \<Rightarrow> Values \<Rightarrow> Values" where
  "remove index v = v\<lparr>contactNumbers := removeArrayAt (getFieldArray v) index\<rparr>"

subsection \<open>Collaborators and the submit handler\<close>

text \<open>
  A promise either resolves with a value or rejects. \<^verbatim>\<open>authClient.signUp(values)\<close>
  resolves with \<^verbatim>\<open>{ error }\<close>, where \<^verbatim>\<open>error\<close> is a string or absent;
  \<^verbatim>\<open>checkSession\<close> is itself optional (\<^verbatim>\<open>checkSession?.()\<close>).
\<close>

datatype 'a settled = Resolves 'a | Rejects

record Collaborators =
  signUp :: "Values \<Rightarrow> string option settled"
  checkSession :: "unit settled option"

datatype event =
    SetIsPending bool
  | SignUp Values
  | SetError path FieldError
  | CheckSession
  | RouterRefresh

datatype outcome = Returned | Threw

text \<open>\<^verbatim>\<open>if (error)\<close>: an absent error and the empty string are both falsy.\<close>

fun truthy :: "string option \<Rightarrow> bool" where
  "truthy None = False"
| "truthy (Some s) = (s \<noteq> [])"

definition onSubmit :: "Collaborators \<Rightarrow> Values \<Rightarrow> event list \<times> outcome" where
  "onSubmit c vals =
     (case signUp c vals of
        Rejects \<Rightarrow> ([SetIsPending True, SignUp vals], Threw)
      | Resolves error \<Rightarrow>
          if truthy error then
            ([SetIsPending True, SignUp vals,
              SetError P_root \<lparr>errType = ''server'', message = (case error of Some m \<Rightarrow> m | None \<Rightarrow> [])\<rparr>,
              SetIsPending False], Returned)
          else
            (case checkSession c of
               None \<Rightarrow> ([SetIsPending True, SignUp vals, RouterRefresh], Returned)
             | Some Rejects \<Rightarrow> ([SetIsPending True, SignUp vals, CheckSession], Threw)
             | Some (Resolves _) \<Rightarrow>
                 ([SetIsPending True, SignUp vals, CheckSession, RouterRefresh], Returned)))"

text \<open>What each call does to the component's own state.\<close>

fun apply_event :: "event \<Rightarrow> FormState \<Rightarrow> FormState" where
  "apply_event (SetIsPending b) st = st\<lparr>isPending := b\<rparr>"
| "apply_event (SetError p e) st = st\<lparr>errors := (errors st)(p \<mapsto> e)\<rparr>"
| "apply_event (SignUp _) st = st"
| "apply_event CheckSession st = st"
| "apply_event RouterRefresh st = st"

text \<open>
  \<^verbatim>\<open>handleSubmit(onSubmit)\<close>: the resolver runs on the current values and its errors
  replace the error slots; the handler is called only when there are none.
\<close>

definition handleSubmit ::
  "(string \<Rightarrow> bool) \<Rightarrow> Collaborators \<Rightarrow> FormState \<Rightarrow> FormState \<times> event list \<times> outcome" where
  "handleSubmit rEmail c st =
     (case yupResolver rEmail schema (formValues st) of
        Inl errs \<Rightarrow> (st\<lparr>errors := errs\<rparr>, [], Returned)
      | Inr vals \<Rightarrow>
          (let (evs, out) = onSubmit c vals
           in (fold apply_event evs (st\<lparr>errors := Map.empty\<rparr>), evs, out)))"

subsection \<open>What is rendered\<close>

record FieldView =
  fv_label :: string
  fv_input :: string
  fv_error :: bool
  fv_helperText :: "string option"

record View =
  view_firstName :: FieldView
  view_lastName :: FieldView
  view_email :: FieldView
  view_password :: FieldView
  view_contactNumbers :: "(FieldView \<times> bool) list"
  view_terms_helperText :: "string option"
  view_rootAlert :: "string option"
  view_submit_disabled :: bool

text \<open>The \<^verbatim>\<open>disabled\<close> property of a Remove button: \<^verbatim>\<open>fields.length === 1\<close>.\<close>

definition remove_disabled :: "Values \<Rightarrow> bool" where
  "remove_disabled v = (length (fields_of v) = 1)"

definition render :: "FormState \<Rightarrow> View" where
  "render st =
     (let v = formValues st; errs = errors st in
      \<lparr>view_firstName =
         \<lparr>fv_label = ''First name'', fv_input = firstName v,
          fv_error = (errs P_firstName \<noteq> None),
          fv_helperText = map_option message (errs P_firstName)\<rparr>,
       view_lastName =
         \<lparr>fv_label = ''Last name'', fv_input = lastName v,
          fv_error = (errs P_firstName \<noteq> None),
          fv_helperText = map_option message (errs P_firstName)\<rparr>,
       view_email =
         \<lparr>fv_label = ''Email address'', fv_input = email v,
          fv_error = (errs P_email \<noteq> None),
          fv_helperText = map_option message (errs P_email)\<rparr>,
       view_password =
         \<lparr>fv_label = ''Password'', fv_input = password v,
          fv_error = (errs P_password \<noteq> None),
          fv_helperText = map_option message (errs P_password)\<rparr>,
       view_contactNumbers =
         map (\<lambda>index.
                (\<lparr>fv_label = ''Contact Number'', fv_input = contactNumbers v ! index,
                  fv_error = (errs (P_contactNumbers_at index) \<noteq> None),
                  fv_helperText = map_option message (errs (P_contactNumbers_at index))\<rparr>,
                 remove_disabled v))
             (fields_of v),
       view_terms_helperText = map_option message (errs P_terms),
       view_rootAlert = map_option message (errs P_root),
       view_submit_disabled = isPending st\<rparr>)"

subsection \<open>What the user can do to the values\<close>

text \<open>
  Typing into a rendered input, ticking the checkbox, and the two buttons of the
  contact-number group. A contact-number input and its Remove button exist only for an
  index of \<^verbatim>\<open>fields\<close>, and a disabled button does not fire \<^verbatim>\<open>onClick\<close>.
\<close>

datatype action =
    Change_firstName string
  | Change_lastName string
  | Change_email string
  | Change_password string
  | Change_contactNumber nat string
  | Change_terms bool
  | Click_add
  | Click_remove nat

fun act :: "action \<Rightarrow> Values \<Rightarrow> Values option" where
  "act (Change_firstName s) v = Some (v\<lparr>firstName := s\<rparr>)"
| "act (Change_lastName s) v = Some (v\<lparr>lastName := s\<rparr>)"
| "act (Change_email s) v = Some (v\<lparr>email := s\<rparr>)"
| "act (Change_password s) v = Some (v\<lparr>password := s\<rparr>)"
| "act (Change_contactNumber i s) v =
     (if i \<in> set (fields_of v) then Some (v\<lparr>contactNumbers := (contactNumbers v)[i := s]\<rparr>)
      else None)"
| "act (Change_terms b) v = Some (v\<lparr>terms := b\<rparr>)"
| "act Click_add v = Some (append_value '''' v)"
| "act (Click_remove i) v =
     (if i \<in> set (fields_of v) \<and> \<not> remove_disabled v then Some (remove i v) else None)"

text \<open>The values the form can hold: those a sequence of user actions leads to.\<close>

inductive reachable :: "Values \<Rightarrow> bool" where
  reachable_init: "reachable defaultValues"
| reachable_act: "reachable v \<Longrightarrow> act a v = Some v' \<Longrightarrow> reachable v'"

text \<open>A run of user actions; \<open>None\<close> when one of them is not offered by the rendered form.\<close>

fun run_actions :: "action list \<Rightarrow> Values \<Rightarrow> Values option" where
  "run_actions [] v = Some v"
| "run_actions (a # as) v = (case act a v of None \<Rightarrow> None | Some v' \<Rightarrow> run_actions as v')"

subsection \<open>Order of calls in a trace\<close>

text \<open>\<open>occurs_before a b tr\<close>: the call \<open>a\<close> occurs in \<open>tr\<close>, and \<open>b\<close> occurs after its first occurrence.\<close>

fun occurs_before :: "event \<Rightarrow> event \<Rightarrow> event list \<Rightarrow> bool" where
  "occurs_before a b [] = False"
| "occurs_before a b (x # xs) = (if x = a then b \<in> set xs else occurs_before a b xs)"

subsection \<open>Reading the result of a submission\<close>

abbreviation state_after :: "FormState \<times> event list \<times> outcome \<Rightarrow> FormState" where
  "state_after r \<equiv> fst r"

abbreviation calls_of :: "FormState \<times> event list \<times> outcome \<Rightarrow> event list" where
  "calls_of r \<equiv> fst (snd r)"

abbreviation outcome_of :: "FormState \<times> event list \<times> outcome \<Rightarrow> outcome" where
  "outcome_of r \<equiv> snd (snd r)"

subsection \<open>Sample inputs\<close>

text \<open>
  A stand-in for the library's e-mail pattern, a set of values that passes the schema,
  and collaborators with fixed answers.
\<close>

definition contains_at :: "string \<Rightarrow> bool" where
  "contains_at s = (CHR ''@'' \<in> set s)"

definition valid_values :: Values where
  "valid_values =
     \<lparr>firstName = ''Ada'', lastName = ''Lovelace'', email = ''ada@example.org'',
      password = ''secret1'', contactNumbers = [''0123''], terms = True\<rparr>"

definition collaborators :: "string option settled \<Rightarrow> unit settled option \<Rightarrow> Collaborators" where
  "collaborators r s = \<lparr>signUp = (\<lambda>_. r), checkSession = s\<rparr>"

section \<open>Validation: which slot receives which error\<close>

text \<open>
  Every error of a string field is stored under the field's own path, so the slot of a
  path is decided by the tests of that field alone.
\<close>

lemma validate_string_fst: "(q, e) \<in> set (validate_string rEmail tests p v) \<Longrightarrow> q = p"
  by (auto simp: validate_string_def)

lemma map_of_validate_string_other:
  "q \<noteq> p \<Longrightarrow> map_of (validate_string rEmail tests p v) q = None"
  by (auto simp: map_of_eq_None_iff dest: validate_string_fst)

lemma map_of_concat_None:
  "(\<And>i. i \<in> set js \<Longrightarrow> map_of (f i) q = None) \<Longrightarrow> map_of (concat (map f js)) q = None"
  by (induction js) (simp_all add: map_add_def)

lemma map_of_concat_at:
  "map_of (concat (map (\<lambda>j. validate_string rEmail tests (P_contactNumbers_at j) (xs ! j)) js))
      (P_contactNumbers_at i) =
   (if i \<in> set js then map_of (validate_string rEmail tests (P_contactNumbers_at i) (xs ! i))
                          (P_contactNumbers_at i)
    else None)"
proof (induction js)
  case Nil
  show ?case by simp
next
  case (Cons a js)
  show ?case
  proof (cases "a = i")
    case True
    with Cons show ?thesis by (simp add: map_add_def split: option.splits)
  next
    case False
    then have "map_of (validate_string rEmail tests (P_contactNumbers_at a) (xs ! a))
                 (P_contactNumbers_at i) = None"
      by (simp add: map_of_validate_string_other)
    with Cons False show ?thesis by (simp add: map_add_def)
  qed
qed

lemma map_of_validate_array:
  "map_of (validate_array rEmail (ArrayOf tests n msg) xs) q =
     (case q of
        P_contactNumbers_at i \<Rightarrow>
          (if i < length xs
           then map_of (validate_string rEmail tests (P_contactNumbers_at i) (xs ! i)) q
           else None)
      | P_contactNumbers \<Rightarrow>
          (if length xs \<ge> n then None else Some \<lparr>errType = ''min'', message = msg\<rparr>)
      | _ \<Rightarrow> None)"
proof (cases q)
  case (P_contactNumbers_at i)
  then show ?thesis
    by (simp add: map_add_def map_of_concat_at split: option.splits)
qed (simp_all add: map_add_def map_of_concat_None map_of_validate_string_other)

lemma map_of_validate_boolean:
  "map_of (validate_boolean (BoolOneOf allowed msg) p b) q =
     (if q = p \<and> b \<notin> set allowed then Some \<lparr>errType = ''oneOf'', message = msg\<rparr> else None)"
  by simp

lemma map_of_validate:
  "map_of (validate rEmail s v) q =
     (case q of
        P_firstName \<Rightarrow> map_of (validate_string rEmail (sch_firstName s) P_firstName (firstName v)) q
      | P_lastName \<Rightarrow> map_of (validate_string rEmail (sch_lastName s) P_lastName (lastName v)) q
      | P_email \<Rightarrow> map_of (validate_string rEmail (sch_email s) P_email (email v)) q
      | P_password \<Rightarrow> map_of (validate_string rEmail (sch_password s) P_password (password v)) q
      | P_terms \<Rightarrow> map_of (validate_boolean (sch_terms s) P_terms (terms v)) q
      | P_root \<Rightarrow> None
      | _ \<Rightarrow> map_of (validate_array rEmail (sch_contactNumbers s) (contactNumbers v)) q)"
proof -
  obtain tests n msg where a: "sch_contactNumbers s = ArrayOf tests n msg"
    by (cases "sch_contactNumbers s")
  obtain allowed bmsg where b: "sch_terms s = BoolOneOf allowed bmsg"
    by (cases "sch_terms s")
  show ?thesis
    unfolding validate_def map_of_append map_add_def a b map_of_validate_array map_of_validate_boolean
    by (cases q) (simp_all add: map_of_validate_string_other split: option.splits)
qed

text \<open>The slots the resolver fills for \<^const>\<open>schema\<close>, and when it fills none.\<close>

lemma schema_errors:
  "parseErrorSchema (validate rEmail schema v) q =
     (case q of
        P_firstName \<Rightarrow>
          if firstName v = [] then Some \<lparr>errType = ''required'', message = ''First name is required''\<rparr>
          else None
      | P_lastName \<Rightarrow>
          if lastName v = [] then Some \<lparr>errType = ''required'', message = ''Last name is required''\<rparr>
          else None
      | P_email \<Rightarrow>
          if email v = [] then Some \<lparr>errType = ''required'', message = ''Email is required''\<rparr>
          else if rEmail (email v) then None
          else Some \<lparr>errType = ''email'', message = ''email must be a valid email''\<rparr>
      | P_password \<Rightarrow>
          if password v = [] then Some \<lparr>errType = ''required'', message = ''Password is required''\<rparr>
          else if length (password v) < 6
          then Some \<lparr>errType = ''min'',
                      message = ''Password should need to be at least 6 characters''\<rparr>
          else None
      | P_contactNumbers \<Rightarrow>
          if contactNumbers v = []
          then Some \<lparr>errType = ''min'', message = ''At least one contact number is required''\<rparr>
          else None
      | P_contactNumbers_at i \<Rightarrow>
          if i < length (contactNumbers v) \<and> contactNumbers v ! i = []
          then Some \<lparr>errType = ''required'', message = ''Contact number is required''\<rparr>
          else None
      | P_terms \<Rightarrow>
          if terms v then None
          else Some \<lparr>errType = ''oneOf'', message = ''You must accept the terms and conditions''\<rparr>
      | P_root \<Rightarrow> None)"
proof -
  have arr: "sch_contactNumbers schema =
      ArrayOf [StrRequired ''Contact number is required'']
        1 ''At least one contact number is required''"
    by (simp add: schema_def)
  show ?thesis
    unfolding parseErrorSchema_def map_of_validate arr map_of_validate_array
    by (cases q)
       (auto simp: schema_def validate_string_def email_default_message_def
          Suc_le_eq)
qed

lemma validate_schema_Nil_iff:
  "validate rEmail schema v = [] \<longleftrightarrow>
     firstName v \<noteq> [] \<and> lastName v \<noteq> [] \<and> email v \<noteq> [] \<and> rEmail (email v) \<and>
     6 \<le> length (password v) \<and> contactNumbers v \<noteq> [] \<and> [] \<notin> set (contactNumbers v) \<and>
     terms v"
proof -
  have "validate rEmail schema v = [] \<longleftrightarrow> (\<forall>q. parseErrorSchema (validate rEmail schema v) q = None)"
    by (cases "validate rEmail schema v") (auto simp: parseErrorSchema_def)
  also have "\<dots> \<longleftrightarrow>
     firstName v \<noteq> [] \<and> lastName v \<noteq> [] \<and> email v \<noteq> [] \<and> rEmail (email v) \<and>
     6 \<le> length (password v) \<and> contactNumbers v \<noteq> [] \<and> [] \<notin> set (contactNumbers v) \<and>
     terms v" (is "?L \<longleftrightarrow> ?R")
  proof
    assume l: ?L
    have "[] \<notin> set (contactNumbers v)"
    proof
      assume "[] \<in> set (contactNumbers v)"
      then obtain i where "i < length (contactNumbers v)" "contactNumbers v ! i = []"
        by (auto simp: in_set_conv_nth)
      with l [rule_format, of "P_contactNumbers_at i"] show False
        by (simp add: schema_errors)
    qed
    moreover from l [rule_format, of P_firstName] have "firstName v \<noteq> []"
      by (auto simp: schema_errors split: if_splits)
    moreover from l [rule_format, of P_lastName] have "lastName v \<noteq> []"
      by (auto simp: schema_errors split: if_splits)
    moreover from l [rule_format, of P_email] have "email v \<noteq> [] \<and> rEmail (email v)"
      by (auto simp: schema_errors split: if_splits)
    moreover from l [rule_format, of P_password] have "6 \<le> length (password v)"
      by (auto simp: schema_errors split: if_splits)
    moreover from l [rule_format, of P_contactNumbers] have "contactNumbers v \<noteq> []"
      by (auto simp: schema_errors split: if_splits)
    moreover from l [rule_format, of P_terms] have "terms v"
      by (auto simp: schema_errors split: if_splits)
    ultimately show ?R by simp
  next
    assume r: ?R
    show ?L
    proof
      fix q
      from r show "parseErrorSchema (validate rEmail schema v) q = None"
        by (cases q) (auto simp: schema_errors dest: nth_mem)
    qed
  qed
  finally show ?thesis .
qed

section \<open>Submitting\<close>

lemma yupResolver_Inr_iff:
  "yupResolver rEmail schema v = Inr vals \<longleftrightarrow> validate rEmail schema v = [] \<and> vals = v"
  by (auto simp: yupResolver_def Let_def)

lemma handleSubmit_invalid:
  "validate rEmail schema (formValues st) \<noteq> [] \<Longrightarrow>
   handleSubmit rEmail c st =
     (st\<lparr>errors := parseErrorSchema (validate rEmail schema (formValues st))\<rparr>, [], Returned)"
  by (simp add: handleSubmit_def yupResolver_def Let_def)

lemma handleSubmit_valid:
  "validate rEmail schema (formValues st) = [] \<Longrightarrow>
   handleSubmit rEmail c st =
     (fold apply_event (fst (onSubmit c (formValues st))) (st\<lparr>errors := Map.empty\<rparr>),
      onSubmit c (formValues st))"
  by (simp add: handleSubmit_def yupResolver_def Let_def split: prod.splits)

lemma apply_event_formValues: "formValues (apply_event ev st) = formValues st"
  by (cases ev) simp_all

lemma fold_apply_event_formValues: "formValues (fold apply_event evs st) = formValues st"
  by (induction evs arbitrary: st) (simp_all add: apply_event_formValues)

lemma fold_apply_event_errors:
  "(\<And>e. SetError p e \<notin> set evs) \<Longrightarrow> errors (fold apply_event evs st) p = errors st p"
proof (induction evs arbitrary: st)
  case Nil
  show ?case by simp
next
  case (Cons ev evs)
  have "errors (apply_event ev st) p = errors st p"
    using Cons.prems by (cases ev) auto
  with Cons show ?case by simp
qed

lemma onSubmit_SetError_root: "SetError p e \<in> set (fst (onSubmit c vals)) \<Longrightarrow> p = P_root"
  by (auto simp: onSubmit_def split: settled.splits option.splits if_splits)

lemma onSubmit_prefix:
  "take 2 (fst (onSubmit c vals)) = [SetIsPending True, SignUp vals]"
  by (auto simp: onSubmit_def split: settled.splits option.splits if_splits)

lemma handleSubmit_errors_field:
  "p \<noteq> P_root \<Longrightarrow>
   errors (fst (handleSubmit rEmail c st)) p =
     parseErrorSchema (validate rEmail schema (formValues st)) p"
proof (cases "validate rEmail schema (formValues st) = []")
  case True
  assume "p \<noteq> P_root"
  then have "\<And>e. SetError p e \<notin> set (fst (onSubmit c (formValues st)))"
    using onSubmit_SetError_root by blast
  then show ?thesis
    using True by (simp add: handleSubmit_valid fold_apply_event_errors parseErrorSchema_def)
next
  case False
  then show ?thesis by (simp add: handleSubmit_invalid)
qed

lemma handleSubmit_formValues: "formValues (fst (handleSubmit rEmail c st)) = formValues st"
  by (cases "validate rEmail schema (formValues st) = []")
     (simp_all add: handleSubmit_valid handleSubmit_invalid fold_apply_event_formValues)

lemma parseErrorSchema_nonempty: "errs \<noteq> [] \<Longrightarrow> parseErrorSchema errs \<noteq> Map.empty"
  by (cases errs) (auto simp: parseErrorSchema_def)

section \<open>Validation blocks the submission\<close>

text \<open>
  Whenever the values fail the schema (a required field is empty, the e-mail does not
  match, the password has fewer than 6 characters, there is no contact number or an empty
  one, or the terms are not accepted), \<^const>\<open>handleSubmit\<close> stores the message of every
  failing field in that field's error slot and does not call the submit handler: the
  list of calls is empty, so \<^verbatim>\<open>authClient.signUp\<close> is never reached, and neither the
  values nor the pending flag change. What the form shows of the stored messages is
  a separate question, settled after this lemma.
\<close>

lemma invalid_submission_stores_errors:
  assumes "firstName (formValues st) = [] \<or> lastName (formValues st) = [] \<or>
           email (formValues st) = [] \<or> \<not> rEmail (email (formValues st)) \<or>
           length (password (formValues st)) < 6 \<or>
           contactNumbers (formValues st) = [] \<or> [] \<in> set (contactNumbers (formValues st)) \<or>
           \<not> terms (formValues st)"
  shows "(let v = formValues st; r = handleSubmit rEmail c st; errs = errors (state_after r) in
          calls_of r = [] \<and> outcome_of r = Returned \<and>
          formValues (state_after r) = v \<and> isPending (state_after r) = isPending st \<and>
          errs \<noteq> Map.empty \<and> errs P_root = None \<and>
          (firstName v = [] \<longrightarrow>
             map_option message (errs P_firstName) = Some ''First name is required'') \<and>
          (lastName v = [] \<longrightarrow>
             map_option message (errs P_lastName) = Some ''Last name is required'') \<and>
          (email v = [] \<longrightarrow>
             map_option message (errs P_email) = Some ''Email is required'') \<and>
          (email v \<noteq> [] \<and> \<not> rEmail (email v) \<longrightarrow>
             map_option message (errs P_email) = Some ''email must be a valid email'') \<and>
          (password v = [] \<longrightarrow>
             map_option message (errs P_password) = Some ''Password is required'') \<and>
          (password v \<noteq> [] \<and> length (password v) < 6 \<longrightarrow>
             map_option message (errs P_password) =
               Some ''Password should need to be at least 6 characters'') \<and>
          (contactNumbers v = [] \<longrightarrow>
             map_option message (errs P_contactNumbers) =
               Some ''At least one contact number is required'') \<and>
          (\<forall>i < length (contactNumbers v). contactNumbers v ! i = [] \<longrightarrow>
             map_option message (errs (P_contactNumbers_at i)) =
               Some ''Contact number is required'') \<and>
          (\<not> terms v \<longrightarrow>
             map_option message (errs P_terms) =
               Some ''You must accept the terms and conditions''))"
proof -
  have inv: "validate rEmail schema (formValues st) \<noteq> []"
    using assms by (auto simp: validate_schema_Nil_iff)
  have r: "handleSubmit rEmail c st =
      (st\<lparr>errors := parseErrorSchema (validate rEmail schema (formValues st))\<rparr>, [], Returned)"
    by (rule handleSubmit_invalid [OF inv])
  have ne: "parseErrorSchema (validate rEmail schema (formValues st)) \<noteq> Map.empty"
    by (rule parseErrorSchema_nonempty [OF inv])
  show ?thesis
    unfolding Let_def r using ne by (simp add: schema_errors)
qed

text \<open>
  C1. The stored messages are not all surfaced. Submitting with only the last name
  empty is blocked (no call is made) and stores \<^verbatim>\<open>Last name is required\<close> in the
  last-name slot, but the last-name field reads \<^verbatim>\<open>errors.firstName\<close>, so the form
  rendered after the submission is the form rendered before it: no field shows a message.
\<close>

theorem lastName_error_not_surfaced:
  "calls_of (handleSubmit contains_at c (initialState\<lparr>formValues := valid_values\<lparr>lastName := ''''\<rparr>\<rparr>)) = [] \<and>
   errors (state_after
      (handleSubmit contains_at c (initialState\<lparr>formValues := valid_values\<lparr>lastName := ''''\<rparr>\<rparr>))) =
     [P_lastName \<mapsto> \<lparr>errType = ''required'', message = ''Last name is required''\<rparr>] \<and>
   render (state_after
      (handleSubmit contains_at c (initialState\<lparr>formValues := valid_values\<lparr>lastName := ''''\<rparr>\<rparr>))) =
     render (initialState\<lparr>formValues := valid_values\<lparr>lastName := ''''\<rparr>\<rparr>) \<and>
   fv_helperText (view_lastName (render (state_after
      (handleSubmit contains_at c (initialState\<lparr>formValues := valid_values\<lparr>lastName := ''''\<rparr>\<rparr>)))))
     = None"
proof -
  have inv: "validate contains_at schema
      (formValues (initialState\<lparr>formValues := valid_values\<lparr>lastName := ''''\<rparr>\<rparr>)) \<noteq> []"
    by (simp add: validate_schema_Nil_iff)
  have errs: "parseErrorSchema (validate contains_at schema
      (formValues (initialState\<lparr>formValues := valid_values\<lparr>lastName := ''''\<rparr>\<rparr>))) =
     [P_lastName \<mapsto> \<lparr>errType = ''required'', message = ''Last name is required''\<rparr>]"
  proof
    fix q
    show "parseErrorSchema (validate contains_at schema
        (formValues (initialState\<lparr>formValues := valid_values\<lparr>lastName := ''''\<rparr>\<rparr>))) q =
       [P_lastName \<mapsto> \<lparr>errType = ''required'', message = ''Last name is required''\<rparr>] q"
      by (cases q) (auto simp: schema_errors valid_values_def contains_at_def nth_Cons')
  qed
  note r = handleSubmit_invalid [OF inv, of c]
  show ?thesis
    unfolding r errs by (simp add: render_def Let_def initialState_def)
qed

text \<open>
  The message of the list itself has no place in the form either: the contact-number
  group reads only \<^verbatim>\<open>errors.contactNumbers?.[index]\<close>. Submitting with an empty list
  stores \<^verbatim>\<open>At least one contact number is required\<close> and renders the same form as
  before.
\<close>

lemma contactNumbers_error_not_rendered:
  "errors (state_after
      (handleSubmit contains_at c (initialState\<lparr>formValues := valid_values\<lparr>contactNumbers := []\<rparr>\<rparr>))) =
     [P_contactNumbers \<mapsto>
        \<lparr>errType = ''min'', message = ''At least one contact number is required''\<rparr>] \<and>
   render (state_after
      (handleSubmit contains_at c (initialState\<lparr>formValues := valid_values\<lparr>contactNumbers := []\<rparr>\<rparr>))) =
     render (initialState\<lparr>formValues := valid_values\<lparr>contactNumbers := []\<rparr>\<rparr>)"
proof -
  have inv: "validate contains_at schema
      (formValues (initialState\<lparr>formValues := valid_values\<lparr>contactNumbers := []\<rparr>\<rparr>)) \<noteq> []"
    by (simp add: validate_schema_Nil_iff)
  have errs: "parseErrorSchema (validate contains_at schema
      (formValues (initialState\<lparr>formValues := valid_values\<lparr>contactNumbers := []\<rparr>\<rparr>))) =
     [P_contactNumbers \<mapsto>
        \<lparr>errType = ''min'', message = ''At least one contact number is required''\<rparr>]"
  proof
    fix q
    show "parseErrorSchema (validate contains_at schema
        (formValues (initialState\<lparr>formValues := valid_values\<lparr>contactNumbers := []\<rparr>\<rparr>))) q =
       [P_contactNumbers \<mapsto>
          \<lparr>errType = ''min'', message = ''At least one contact number is required''\<rparr>] q"
      by (cases q) (auto simp: schema_errors valid_values_def contains_at_def nth_Cons')
  qed
  note r = handleSubmit_invalid [OF inv, of c]
  show ?thesis
    unfolding r errs by (simp add: render_def Let_def initialState_def fields_of_def)
qed

text \<open>
  C6. Submitting a non-empty password of fewer than 6 characters puts the minimum-length
  error into the password slot; a password of 6 or more characters leaves the password
  slot empty.
\<close>

theorem short_password_error:
  "(password (formValues st) \<noteq> [] \<and> length (password (formValues st)) < 6 \<longrightarrow>
      errors (state_after (handleSubmit rEmail c st)) P_password =
        Some \<lparr>errType = ''min'',
              message = ''Password should need to be at least 6 characters''\<rparr>) \<and>
   (6 \<le> length (password (formValues st)) \<longrightarrow>
      errors (state_after (handleSubmit rEmail c st)) P_password = None)"
  by (auto simp: handleSubmit_errors_field schema_errors)

theorem short_password_error_witness:
  "password (formValues (initialState\<lparr>formValues := valid_values\<lparr>password := ''abc''\<rparr>\<rparr>)) \<noteq> [] \<and>
   length (password (formValues (initialState\<lparr>formValues := valid_values\<lparr>password := ''abc''\<rparr>\<rparr>))) < 6 \<and>
   errors (state_after (handleSubmit contains_at (collaborators (Resolves None) None)
       (initialState\<lparr>formValues := valid_values\<lparr>password := ''abc''\<rparr>\<rparr>))) P_password =
     Some \<lparr>errType = ''min'', message = ''Password should need to be at least 6 characters''\<rparr> \<and>
   6 \<le> length (password (formValues (initialState\<lparr>formValues := valid_values\<rparr>))) \<and>
   errors (state_after (handleSubmit contains_at (collaborators (Resolves None) None)
       (initialState\<lparr>formValues := valid_values\<rparr>))) P_password = None"
  using short_password_error [of "initialState\<lparr>formValues := valid_values\<lparr>password := ''abc''\<rparr>\<rparr>"
      contains_at "collaborators (Resolves None) None"]
    short_password_error [of "initialState\<lparr>formValues := valid_values\<rparr>"
      contains_at "collaborators (Resolves None) None"]
  by (simp add: valid_values_def)

text \<open>
  C7. Submitting with an empty contact-number list puts the error
  \<^verbatim>\<open>At least one contact number is required\<close> into the slot of the list, and the submit
  handler is not called.
\<close>

theorem empty_contact_list_error:
  assumes "contactNumbers (formValues st) = []"
  shows "errors (state_after (handleSubmit rEmail c st)) P_contactNumbers =
           Some \<lparr>errType = ''min'', message = ''At least one contact number is required''\<rparr> \<and>
         calls_of (handleSubmit rEmail c st) = []"
proof -
  have inv: "validate rEmail schema (formValues st) \<noteq> []"
    using assms by (simp add: validate_schema_Nil_iff)
  show ?thesis
    using assms by (simp add: handleSubmit_invalid [OF inv] schema_errors)
qed

theorem empty_contact_list_error_witness:
  "contactNumbers (formValues (initialState\<lparr>formValues := valid_values\<lparr>contactNumbers := []\<rparr>\<rparr>)) = [] \<and>
   errors (state_after (handleSubmit contains_at (collaborators (Resolves None) None)
       (initialState\<lparr>formValues := valid_values\<lparr>contactNumbers := []\<rparr>\<rparr>))) P_contactNumbers =
     Some \<lparr>errType = ''min'', message = ''At least one contact number is required''\<rparr>"
  using empty_contact_list_error [of "initialState\<lparr>formValues := valid_values\<lparr>contactNumbers := []\<rparr>\<rparr>"
      contains_at "collaborators (Resolves None) None"]
  by simp

section \<open>The submit handler\<close>

text \<open>
  C2, as stated, fails for the empty message: when \<^verbatim>\<open>signUp\<close> resolves with
  \<^verbatim>\<open>{ error: '' }\<close> the test \<^verbatim>\<open>if (error)\<close> is false, so the handler takes the success
  path: no root error is set, the pending flag stays set, and the session refresh and the
  route refresh are requested.
\<close>

theorem signUp_empty_error_counterexample:
  "signUp (collaborators (Resolves (Some [])) (Some (Resolves ()))) valid_values = Resolves (Some []) \<and>
   onSubmit (collaborators (Resolves (Some [])) (Some (Resolves ()))) valid_values =
     ([SetIsPending True, SignUp valid_values, CheckSession, RouterRefresh], Returned) \<and>
   errors (state_after (handleSubmit contains_at (collaborators (Resolves (Some [])) (Some (Resolves ())))
     (initialState\<lparr>formValues := valid_values\<rparr>))) P_root = None \<and>
   isPending (state_after (handleSubmit contains_at (collaborators (Resolves (Some [])) (Some (Resolves ())))
     (initialState\<lparr>formValues := valid_values\<rparr>)))"
  by (simp add: collaborators_def onSubmit_def handleSubmit_def yupResolver_def validate_def
      schema_def validate_string_def valid_values_def contains_at_def initialState_def)

text \<open>
  C2, amended. For every submission that passes validation and where \<^verbatim>\<open>signUp\<close> resolves
  with a non-empty error message \<open>X\<close>: the handler stores \<open>X\<close> in the root error slot
  (the root alert shows \<open>X\<close>), clears the pending flag (the submit button is enabled
  again), and returns without calling \<^verbatim>\<open>checkSession\<close> or \<^verbatim>\<open>router.refresh\<close>.
\<close>

theorem signUp_error_sets_root:
  assumes "yupResolver rEmail schema (formValues st) = Inr vals"
    and "signUp c vals = Resolves (Some X)"
    and "X \<noteq> []"
  shows "handleSubmit rEmail c st =
           (st\<lparr>errors := [P_root \<mapsto> \<lparr>errType = ''server'', message = X\<rparr>], isPending := False\<rparr>,
            [SetIsPending True, SignUp vals,
             SetError P_root \<lparr>errType = ''server'', message = X\<rparr>, SetIsPending False],
            Returned) \<and>
         view_rootAlert (render (state_after (handleSubmit rEmail c st))) = Some X \<and>
         \<not> view_submit_disabled (render (state_after (handleSubmit rEmail c st))) \<and>
         CheckSession \<notin> set (calls_of (handleSubmit rEmail c st)) \<and>
         RouterRefresh \<notin> set (calls_of (handleSubmit rEmail c st))"
proof -
  from assms(1) have v: "validate rEmail schema (formValues st) = []" and eq: "vals = formValues st"
    by (simp_all add: yupResolver_Inr_iff)
  have os: "onSubmit c (formValues st) =
      ([SetIsPending True, SignUp vals,
        SetError P_root \<lparr>errType = ''server'', message = X\<rparr>, SetIsPending False], Returned)"
    using assms(2,3) eq by (simp add: onSubmit_def)
  have r: "handleSubmit rEmail c st =
           (st\<lparr>errors := [P_root \<mapsto> \<lparr>errType = ''server'', message = X\<rparr>], isPending := False\<rparr>,
            [SetIsPending True, SignUp vals,
             SetError P_root \<lparr>errType = ''server'', message = X\<rparr>, SetIsPending False],
            Returned)"
    by (simp add: handleSubmit_valid [OF v] os)
  show ?thesis
    unfolding r by (simp add: render_def Let_def)
qed

theorem signUp_error_sets_root_witness:
  "yupResolver contains_at schema (formValues (initialState\<lparr>formValues := valid_values\<rparr>)) = Inr valid_values \<and>
   signUp (collaborators (Resolves (Some ''Email taken'')) (Some (Resolves ()))) valid_values =
     Resolves (Some ''Email taken'') \<and>
   ''Email taken'' \<noteq> [] \<and>
   view_rootAlert (render (state_after
     (handleSubmit contains_at (collaborators (Resolves (Some ''Email taken'')) (Some (Resolves ())))
        (initialState\<lparr>formValues := valid_values\<rparr>)))) = Some ''Email taken'' \<and>
   \<not> isPending (state_after
     (handleSubmit contains_at (collaborators (Resolves (Some ''Email taken'')) (Some (Resolves ())))
        (initialState\<lparr>formValues := valid_values\<rparr>)))"
proof -
  have a: "yupResolver contains_at schema (formValues (initialState\<lparr>formValues := valid_values\<rparr>)) = Inr valid_values"
    by (simp add: yupResolver_Inr_iff validate_schema_Nil_iff valid_values_def contains_at_def)
  have b: "signUp (collaborators (Resolves (Some ''Email taken'')) (Some (Resolves ()))) valid_values =
     Resolves (Some ''Email taken'')"
    by (simp add: collaborators_def)
  have c: "''Email taken'' \<noteq> []" by simp
  show ?thesis
    using a b signUp_error_sets_root [OF a b c] by (simp add: render_def)
qed

text \<open>
  C3, as stated, fails when the user-session collaborator provides no
  \<^verbatim>\<open>checkSession\<close>: \<^verbatim>\<open>checkSession?.()\<close> then calls nothing, and the route refresh is
  requested without any session refresh before it.
\<close>

theorem absent_checkSession_counterexample:
  "signUp (collaborators (Resolves None) None) valid_values = Resolves None \<and>
   calls_of (handleSubmit contains_at (collaborators (Resolves None) None)
      (initialState\<lparr>formValues := valid_values\<rparr>)) =
     [SetIsPending True, SignUp valid_values, RouterRefresh] \<and>
   \<not> occurs_before CheckSession RouterRefresh
      (calls_of (handleSubmit contains_at (collaborators (Resolves None) None)
         (initialState\<lparr>formValues := valid_values\<rparr>)))"
  by (simp add: collaborators_def onSubmit_def handleSubmit_def yupResolver_def validate_def
      schema_def validate_string_def valid_values_def contains_at_def initialState_def)

text \<open>
  C3, amended. For every submission that passes validation and where \<^verbatim>\<open>signUp\<close> resolves
  without an error: if \<^verbatim>\<open>checkSession\<close> is provided it is called, and the route refresh is
  requested only after it has resolved (when it rejects, no route refresh is requested);
  if \<^verbatim>\<open>checkSession\<close> is absent, the route refresh is requested directly.
\<close>

theorem session_refresh_before_route_refresh:
  assumes "yupResolver rEmail schema (formValues st) = Inr vals"
    and "signUp c vals = Resolves error"
    and "\<not> truthy error"
  shows "(checkSession c = Some (Resolves ()) \<longrightarrow>
            calls_of (handleSubmit rEmail c st) =
              [SetIsPending True, SignUp vals, CheckSession, RouterRefresh] \<and>
            outcome_of (handleSubmit rEmail c st) = Returned) \<and>
         (checkSession c = Some Rejects \<longrightarrow>
            calls_of (handleSubmit rEmail c st) = [SetIsPending True, SignUp vals, CheckSession] \<and>
            outcome_of (handleSubmit rEmail c st) = Threw) \<and>
         (checkSession c = None \<longrightarrow>
            calls_of (handleSubmit rEmail c st) = [SetIsPending True, SignUp vals, RouterRefresh] \<and>
            outcome_of (handleSubmit rEmail c st) = Returned) \<and>
         (checkSession c \<noteq> None \<longrightarrow> CheckSession \<in> set (calls_of (handleSubmit rEmail c st))) \<and>
         (checkSession c \<noteq> None \<and> RouterRefresh \<in> set (calls_of (handleSubmit rEmail c st)) \<longrightarrow>
            occurs_before CheckSession RouterRefresh (calls_of (handleSubmit rEmail c st)))"
proof -
  from assms(1) have v: "validate rEmail schema (formValues st) = []" and eq: "vals = formValues st"
    by (simp_all add: yupResolver_Inr_iff)
  show ?thesis
    using assms(2,3) eq
    by (cases "checkSession c")
       (auto simp: handleSubmit_valid [OF v] onSubmit_def split: settled.splits)
qed

theorem session_refresh_before_route_refresh_witness:
  "yupResolver contains_at schema (formValues (initialState\<lparr>formValues := valid_values\<rparr>)) = Inr valid_values \<and>
   signUp (collaborators (Resolves None) (Some (Resolves ()))) valid_values = Resolves None \<and>
   \<not> truthy None \<and>
   checkSession (collaborators (Resolves None) (Some (Resolves ()))) = Some (Resolves ()) \<and>
   calls_of (handleSubmit contains_at (collaborators (Resolves None) (Some (Resolves ())))
      (initialState\<lparr>formValues := valid_values\<rparr>)) =
     [SetIsPending True, SignUp valid_values, CheckSession, RouterRefresh] \<and>
   occurs_before CheckSession RouterRefresh
     (calls_of (handleSubmit contains_at (collaborators (Resolves None) (Some (Resolves ())))
        (initialState\<lparr>formValues := valid_values\<rparr>)))"
proof -
  have a: "yupResolver contains_at schema (formValues (initialState\<lparr>formValues := valid_values\<rparr>)) = Inr valid_values"
    by (simp add: yupResolver_Inr_iff validate_schema_Nil_iff valid_values_def contains_at_def)
  have b: "signUp (collaborators (Resolves None) (Some (Resolves ()))) valid_values = Resolves None"
    by (simp add: collaborators_def)
  have c: "\<not> truthy None" by simp
  have d: "checkSession (collaborators (Resolves None) (Some (Resolves ()))) = Some (Resolves ())"
    by (simp add: collaborators_def)
  show ?thesis
    using a b d session_refresh_before_route_refresh [OF a b c] by simp
qed

text \<open>
  C8. For every submission that passes validation, the first two calls of the handler
  are \<^verbatim>\<open>setIsPending(true)\<close> and then \<^verbatim>\<open>signUp(values)\<close>. When \<^verbatim>\<open>signUp\<close> resolves
  without an error, the handler makes no other call than these two, \<^verbatim>\<open>checkSession\<close> and
  \<^verbatim>\<open>router.refresh\<close>: the pending flag is never cleared (the submit button stays
  disabled) and the values of the form are unchanged.
\<close>

theorem pending_set_before_signUp_and_kept:
  assumes "yupResolver rEmail schema (formValues st) = Inr vals"
  shows "take 2 (calls_of (handleSubmit rEmail c st)) = [SetIsPending True, SignUp vals] \<and>
         (\<forall>error. signUp c vals = Resolves error \<and> \<not> truthy error \<longrightarrow>
            set (calls_of (handleSubmit rEmail c st))
              \<subseteq> {SetIsPending True, SignUp vals, CheckSession, RouterRefresh} \<and>
            isPending (state_after (handleSubmit rEmail c st)) \<and>
            view_submit_disabled (render (state_after (handleSubmit rEmail c st))) \<and>
            formValues (state_after (handleSubmit rEmail c st)) = formValues st)"
proof -
  from assms(1) have v: "validate rEmail schema (formValues st) = []" and eq: "vals = formValues st"
    by (simp_all add: yupResolver_Inr_iff)
  have 1: "take 2 (calls_of (handleSubmit rEmail c st)) = [SetIsPending True, SignUp vals]"
    using eq by (simp add: handleSubmit_valid [OF v] onSubmit_prefix)
  have 2: "set (calls_of (handleSubmit rEmail c st))
              \<subseteq> {SetIsPending True, SignUp vals, CheckSession, RouterRefresh} \<and>
            isPending (state_after (handleSubmit rEmail c st)) \<and>
            view_submit_disabled (render (state_after (handleSubmit rEmail c st))) \<and>
            formValues (state_after (handleSubmit rEmail c st)) = formValues st"
    if "signUp c vals = Resolves error" "\<not> truthy error" for error
    using that eq
    by (cases "checkSession c")
       (auto simp: handleSubmit_valid [OF v] onSubmit_def render_def Let_def split: settled.splits)
  from 1 2 show ?thesis by blast
qed

theorem pending_set_before_signUp_and_kept_witness:
  "yupResolver contains_at schema (formValues (initialState\<lparr>formValues := valid_values\<rparr>)) = Inr valid_values \<and>
   signUp (collaborators (Resolves None) (Some (Resolves ()))) valid_values = Resolves None \<and>
   \<not> truthy None \<and>
   take 2 (calls_of (handleSubmit contains_at (collaborators (Resolves None) (Some (Resolves ())))
      (initialState\<lparr>formValues := valid_values\<rparr>))) = [SetIsPending True, SignUp valid_values] \<and>
   isPending (state_after (handleSubmit contains_at (collaborators (Resolves None) (Some (Resolves ())))
      (initialState\<lparr>formValues := valid_values\<rparr>))) \<and>
   formValues (state_after (handleSubmit contains_at (collaborators (Resolves None) (Some (Resolves ())))
      (initialState\<lparr>formValues := valid_values\<rparr>))) = valid_values"
proof -
  have a: "yupResolver contains_at schema (formValues (initialState\<lparr>formValues := valid_values\<rparr>)) = Inr valid_values"
    by (simp add: yupResolver_Inr_iff validate_schema_Nil_iff valid_values_def contains_at_def)
  have b: "signUp (collaborators (Resolves None) (Some (Resolves ()))) valid_values = Resolves None"
    by (simp add: collaborators_def)
  have c: "\<not> truthy None" by simp
  show ?thesis
    using a b c pending_set_before_signUp_and_kept [OF a, of "collaborators (Resolves None) (Some (Resolves ()))"]
    by simp
qed

section \<open>The contact-number list\<close>

lemma compact_id: "[] \<notin> set xs \<Longrightarrow> compact xs = xs"
  by (induction xs) (auto simp: compact_def)

lemma reachable_iff_run: "reachable v \<longleftrightarrow> (\<exists>as. run_actions as defaultValues = Some v)"
proof
  assume "reachable v"
  then show "\<exists>as. run_actions as defaultValues = Some v"
  proof (induction rule: reachable.induct)
    case reachable_init
    have "run_actions [] defaultValues = Some defaultValues" by simp
    then show ?case by blast
  next
    case (reachable_act v a v')
    then obtain as where as: "run_actions as defaultValues = Some v" by blast
    have "run_actions (as @ [a]) w = Some v'" if "run_actions as w = Some v" for w
      using that reachable_act.hyps(2)
      by (induction as arbitrary: w) (auto split: option.splits)
    with as show ?case by blast
  qed
next
  assume "\<exists>as. run_actions as defaultValues = Some v"
  then obtain as where as: "run_actions as defaultValues = Some v" by blast
  have "reachable w \<Longrightarrow> run_actions as w = Some v \<Longrightarrow> reachable v" for w
    by (induction as arbitrary: w) (auto split: option.splits intro: reachable_act)
  with as reachable_init show "reachable v" by blast
qed

text \<open>
  C5, as stated, fails at the initial state: it is reachable and its contact-number list
  is empty.
\<close>

theorem initial_contact_list_counterexample:
  "reachable defaultValues \<and> \<not> 1 \<le> length (contactNumbers defaultValues)"
proof
  show "reachable defaultValues" by (rule reachable_init)
  show "\<not> 1 \<le> length (contactNumbers defaultValues)" by (simp add: defaultValues_def)
qed

text \<open>
  C5, amended. The list is empty in the initial state. In every state, when exactly one
  contact number remains its Remove button is disabled and \<^verbatim>\<open>remove(index)\<close> cannot be
  applied; the button is disabled in no other case. When no contact number is the empty
  string, a \<^verbatim>\<open>remove(index)\<close> that is applied deletes exactly the entry at \<^verbatim>\<open>index\<close> and
  leaves at least one entry.
\<close>

theorem last_contact_number_not_removable:
  "contactNumbers defaultValues = [] \<and>
   (length (contactNumbers v) = 1 \<longrightarrow> act (Click_remove i) v = None) \<and>
   (\<forall>x \<in> set (view_contactNumbers (render \<lparr>formValues = v, errors = errs, isPending = b\<rparr>)).
      snd x = (length (contactNumbers v) = 1)) \<and>
   ([] \<notin> set (contactNumbers v) \<and> act (Click_remove i) v = Some v' \<longrightarrow>
      i < length (contactNumbers v) \<and>
      contactNumbers v' = take i (contactNumbers v) @ drop (Suc i) (contactNumbers v) \<and>
      contactNumbers v' \<noteq> [])"
proof -
  have 1: "contactNumbers defaultValues = []"
    by (simp add: defaultValues_def)
  have 2: "length (contactNumbers v) = 1 \<longrightarrow> act (Click_remove i) v = None"
    by (simp add: remove_disabled_def fields_of_def)
  have 3: "\<forall>x \<in> set (view_contactNumbers (render \<lparr>formValues = v, errors = errs, isPending = b\<rparr>)).
      snd x = (length (contactNumbers v) = 1)"
    by (auto simp: render_def Let_def remove_disabled_def fields_of_def)
  have 4: "i < length (contactNumbers v) \<and>
      contactNumbers v' = take i (contactNumbers v) @ drop (Suc i) (contactNumbers v) \<and>
      contactNumbers v' \<noteq> []"
    if ne: "[] \<notin> set (contactNumbers v)" and s: "act (Click_remove i) v = Some v'"
  proof -
    from s have i: "i < length (contactNumbers v)" and l: "length (contactNumbers v) \<noteq> 1"
      and v': "v' = remove i v"
      by (auto simp: fields_of_def remove_disabled_def split: if_splits)
    from ne have c: "compact (contactNumbers v) = contactNumbers v"
      by (rule compact_id)
    let ?temp = "take i (contactNumbers v) @ drop (Suc i) (contactNumbers v)"
    from i l have len: "length ?temp \<noteq> 0" by auto
    have "set ?temp \<subseteq> set (contactNumbers v)"
      using set_take_subset set_drop_subset by fastforce
    with ne have "[] \<notin> set ?temp" by blast
    then have "compact ?temp = ?temp"
      by (rule compact_id)
    with len have "removeArrayAt (contactNumbers v) i = ?temp"
      by (auto simp: removeArrayAt_def Let_def)
    with c len i show ?thesis
      unfolding v' remove_def getFieldArray_def by auto
  qed
  from 1 2 3 4 show ?thesis by blast
qed

theorem last_contact_number_not_removable_witness:
  "length (contactNumbers valid_values) = 1 \<and>
   act (Click_remove 0) valid_values = None \<and>
   map snd (view_contactNumbers
     (render \<lparr>formValues = valid_values, errors = Map.empty, isPending = False\<rparr>)) = [True] \<and>
   [] \<notin> set (contactNumbers (valid_values\<lparr>contactNumbers := [''0123'', ''4567'']\<rparr>)) \<and>
   act (Click_remove 0) (valid_values\<lparr>contactNumbers := [''0123'', ''4567'']\<rparr>) =
     Some (valid_values\<lparr>contactNumbers := [''4567'']\<rparr>) \<and>
   contactNumbers (valid_values\<lparr>contactNumbers := [''4567'']\<rparr>) \<noteq> []"
proof -
  have l: "length (contactNumbers valid_values) = 1"
    by (simp add: valid_values_def)
  have d: "map snd (view_contactNumbers
     (render \<lparr>formValues = valid_values, errors = Map.empty, isPending = False\<rparr>)) = [True]"
    by (simp add: render_def Let_def fields_of_def remove_disabled_def valid_values_def)
  have ne: "[] \<notin> set (contactNumbers (valid_values\<lparr>contactNumbers := [''0123'', ''4567'']\<rparr>))"
    by simp
  have a: "act (Click_remove 0) (valid_values\<lparr>contactNumbers := [''0123'', ''4567'']\<rparr>) =
     Some (valid_values\<lparr>contactNumbers := [''4567'']\<rparr>)"
    by (simp add: fields_of_def remove_disabled_def remove_def getFieldArray_def compact_def
        removeArrayAt_def Let_def valid_values_def)
  from l last_contact_number_not_removable [of valid_values 0 Map.empty False valid_values]
  have 1: "act (Click_remove 0) valid_values = None"
    by blast
  from ne a
    last_contact_number_not_removable [of "valid_values\<lparr>contactNumbers := [''0123'', ''4567'']\<rparr>"
      0 Map.empty False "valid_values\<lparr>contactNumbers := [''4567'']\<rparr>"]
  have 2: "contactNumbers (valid_values\<lparr>contactNumbers := [''4567'']\<rparr>) \<noteq> []"
    by blast
  from l d ne a 1 2 show ?thesis by blast
qed

section \<open>Rendering\<close>

text \<open>
  C4. The last-name field reads \<^verbatim>\<open>errors.firstName\<close>. Submitting with only the last name
  empty stores \<^verbatim>\<open>Last name is required\<close> in the last-name slot while the last-name field
  shows no message; submitting with only the first name empty leaves the last-name slot
  empty while the last-name field shows \<^verbatim>\<open>First name is required\<close>.
\<close>

theorem lastName_field_shows_firstName_error:
  "errors (state_after (handleSubmit contains_at c (initialState\<lparr>formValues := valid_values\<lparr>lastName := ''''\<rparr>\<rparr>)))
      P_lastName = Some \<lparr>errType = ''required'', message = ''Last name is required''\<rparr> \<and>
   view_lastName (render (state_after
      (handleSubmit contains_at c (initialState\<lparr>formValues := valid_values\<lparr>lastName := ''''\<rparr>\<rparr>)))) =
     \<lparr>fv_label = ''Last name'', fv_input = '''', fv_error = False, fv_helperText = None\<rparr> \<and>
   errors (state_after (handleSubmit contains_at c (initialState\<lparr>formValues := valid_values\<lparr>firstName := ''''\<rparr>\<rparr>)))
      P_lastName = None \<and>
   view_lastName (render (state_after
      (handleSubmit contains_at c (initialState\<lparr>formValues := valid_values\<lparr>firstName := ''''\<rparr>\<rparr>)))) =
     \<lparr>fv_label = ''Last name'', fv_input = ''Lovelace'', fv_error = True,
      fv_helperText = Some ''First name is required''\<rparr>"
proof -
  have 1: "validate contains_at schema (formValues (initialState\<lparr>formValues := valid_values\<lparr>lastName := ''''\<rparr>\<rparr>)) \<noteq> []"
    by (simp add: validate_schema_Nil_iff)
  have 2: "validate contains_at schema (formValues (initialState\<lparr>formValues := valid_values\<lparr>firstName := ''''\<rparr>\<rparr>)) \<noteq> []"
    by (simp add: validate_schema_Nil_iff)
  note r1 = handleSubmit_invalid [OF 1, of c] and r2 = handleSubmit_invalid [OF 2, of c]
  show ?thesis
    unfolding r1 r2 by (simp add: render_def Let_def schema_errors valid_values_def)
qed

text \<open>
  On a list without an empty entry the Add button does add one entry, the empty string,
  at the end, and changes nothing else.
\<close>

lemma append_value_no_empty_entry:
  "[] \<notin> set (contactNumbers v) \<Longrightarrow>
   act Click_add v = Some (v\<lparr>contactNumbers := contactNumbers v @ ['''']\<rparr>)"
  by (simp add: append_value_def getFieldArray_def compact_id)

text \<open>
  C9. The Add button does not add an entry to every list: \<^verbatim>\<open>append('')\<close> works on the
  list without its empty entries. Two clicks on the fresh form leave one contact number,
  not two; on \<^verbatim>\<open>['0123', '']\<close> the list does not grow; on \<^verbatim>\<open>['', 'b']\<close> the entry
  \<^verbatim>\<open>'b'\<close> moves from the second input to the first.
\<close>

theorem append_drops_empty_entries:
  "run_actions [Click_add, Click_add] defaultValues = Some (defaultValues\<lparr>contactNumbers := ['''']\<rparr>) \<and>
   act Click_add (valid_values\<lparr>contactNumbers := [''0123'', '''']\<rparr>) =
     Some (valid_values\<lparr>contactNumbers := [''0123'', '''']\<rparr>) \<and>
   act Click_add (valid_values\<lparr>contactNumbers := ['''', ''b'']\<rparr>) =
     Some (valid_values\<lparr>contactNumbers := [''b'', '''']\<rparr>)"
  by (simp add: append_value_def getFieldArray_def compact_def defaultValues_def valid_values_def)

text \<open>
  For the same reason a list that holds an entry can be emptied through enabled buttons:
  from \<^verbatim>\<open>['0123']\<close>, Add and then Remove on the first entry leave no contact number.
\<close>

lemma add_then_remove_empties_list:
  "run_actions [Click_add, Click_remove 0] valid_values = Some (valid_values\<lparr>contactNumbers := []\<rparr>)"
  by (simp add: append_value_def remove_def removeArrayAt_def getFieldArray_def compact_def
      fields_of_def remove_disabled_def valid_values_def Let_def)

text \<open>
  C10. In the initial state every text field is the empty string, the terms flag is
  false and the contact-number list is empty, so no contact-number input is rendered;
  after one \<^verbatim>\<open>append('')\<close> there is one, and it is empty.
\<close>

theorem initial_form_has_no_contact_inputs:
  "firstName (formValues initialState) = '''' \<and>
   lastName (formValues initialState) = '''' \<and>
   email (formValues initialState) = '''' \<and>
   password (formValues initialState) = '''' \<and>
   terms (formValues initialState) = False \<and>
   contactNumbers (formValues initialState) = [] \<and>
   view_contactNumbers (render initialState) = [] \<and>
   map (fv_input \<circ> fst)
     (view_contactNumbers (render (initialState\<lparr>formValues := append_value '''' defaultValues\<rparr>))) = ['''']"
  by (simp add: initialState_def defaultValues_def render_def fields_of_def append_value_def
      getFieldArray_def compact_def Let_def)

end
